theory Spec2Isabelle
  imports Complex_Main "HOL-Library.Char_ord" "HOL-Library.List_Lexorder"
    "HOL-Library.Product_Lexorder" "HOL-Library.Multiset"
begin

section \<open>Cost values\<close>

text \<open>
  The cost columns are float64 columns of a pandas table. A finite value is kept as the
  rational it denotes: rounding and overflow of the arithmetic are not part of the model,
  and negative zero is not told apart from zero. The three special values are kept,
  because the scripts produce them: a missing cell and a failed coercion are NaN, a
  division by zero gives an infinity or NaN (numpy does not raise on it).
\<close>

datatype fval = Fin rat | PInf | NInf | NaN

fun isnan :: "fval \<Rightarrow> bool" where
  "isnan NaN = True"
| "isnan _ = False"

fun fneg :: "fval \<Rightarrow> fval" where
  "fneg (Fin a) = Fin (- a)"
| "fneg PInf = NInf"
| "fneg NInf = PInf"
| "fneg NaN = NaN"

fun fadd :: "fval \<Rightarrow> fval \<Rightarrow> fval" where
  "fadd NaN _ = NaN"
| "fadd _ NaN = NaN"
| "fadd PInf NInf = NaN"
| "fadd NInf PInf = NaN"
| "fadd PInf _ = PInf"
| "fadd _ PInf = PInf"
| "fadd NInf _ = NInf"
| "fadd _ NInf = NInf"
| "fadd (Fin a) (Fin b) = Fin (a + b)"

definition fsub :: "fval \<Rightarrow> fval \<Rightarrow> fval" where
  "fsub x y = fadd x (fneg y)"

text \<open>The sign of a value that is not NaN, zero counting as positive zero.\<close>

fun fnonneg :: "fval \<Rightarrow> bool" where
  "fnonneg (Fin a) = (0 \<le> a)"
| "fnonneg PInf = True"
| "fnonneg NInf = False"
| "fnonneg NaN = False"

fun fmul :: "fval \<Rightarrow> fval \<Rightarrow> fval" where
  "fmul NaN _ = NaN"
| "fmul _ NaN = NaN"
| "fmul (Fin a) (Fin b) = Fin (a * b)"
| "fmul x y =
     (if x = Fin 0 \<or> y = Fin 0 then NaN
      else if fnonneg x = fnonneg y then PInf else NInf)"

fun fdiv :: "fval \<Rightarrow> fval \<Rightarrow> fval" where
  "fdiv NaN _ = NaN"
| "fdiv _ NaN = NaN"
| "fdiv (Fin a) (Fin b) =
     (if b = 0 then (if a = 0 then NaN else if 0 < a then PInf else NInf)
      else Fin (a / b))"
| "fdiv (Fin a) _ = Fin 0"
| "fdiv x (Fin b) = (if fnonneg x = (0 \<le> b) then PInf else NInf)"
| "fdiv _ _ = NaN"

text \<open>The comparison \<open>x <= y\<close> of floats: false as soon as one side is NaN.\<close>

fun fle :: "fval \<Rightarrow> fval \<Rightarrow> bool" where
  "fle NaN _ = False"
| "fle _ NaN = False"
| "fle NInf _ = True"
| "fle _ PInf = True"
| "fle (Fin a) (Fin b) = (a \<le> b)"
| "fle _ _ = False"

text \<open>
  \<open>Series.sum()\<close> and \<open>Series.mean()\<close> with the default \<open>skipna=True\<close>: NaN entries
  are left out; the sum of no value is 0.0 and the mean of no value is NaN.
\<close>

definition series_sum :: "fval list \<Rightarrow> fval" where
  "series_sum xs = foldl fadd (Fin 0) (filter (\<lambda>x. \<not> isnan x) xs)"

definition series_mean :: "fval list \<Rightarrow> fval" where
  "series_mean xs =
     (let vs = filter (\<lambda>x. \<not> isnan x) xs
      in if vs = [] then NaN else fdiv (foldl fadd (Fin 0) vs) (Fin (of_nat (length vs))))"

section \<open>deployment.py: the comparison against Ethereum\<close>

text \<open>
  A row of the deployment table (columns \<open>Contract\<close>, \<open>Network\<close>,
  \<open>Est. Deployment Cost (USD)\<close>), the cost column of type \<open>'c\<close>: a raw cell before
  the cleaning, a float after it.
\<close>

record 'c dep_row =
  dep_Contract :: string
  dep_Network :: string
  Est_Deployment_Cost :: 'c

text \<open>A row of \<open>comparison_df\<close> after lines 45 to 49 have added three columns.\<close>

record comparison_row =
  cmp_Contract :: string
  cmp_Network :: string
  cmp_Est_Deployment_Cost :: fval
  Ethereum_Cost :: fval
  Discount_USD :: fval
  Discount_pct :: fval

definition ethereum_df :: "fval dep_row list \<Rightarrow> fval dep_row list" where
  "ethereum_df df = filter (\<lambda>r. dep_Network r = ''Ethereum'') df"

definition total_ethereum_cost :: "fval dep_row list \<Rightarrow> fval" where
  "total_ethereum_cost df = series_sum (map Est_Deployment_Cost (ethereum_df df))"

definition average_ethereum_cost :: "fval dep_row list \<Rightarrow> fval" where
  "average_ethereum_cost df = series_mean (map Est_Deployment_Cost (ethereum_df df))"

text \<open>
  \<open>set_index('Contract')[...].to_dict()\<close>: when a contract has several Ethereum rows
  the dictionary keeps the last one.
\<close>

definition ethereum_cost_map :: "fval dep_row list \<Rightarrow> (string \<rightharpoonup> fval)" where
  "ethereum_cost_map df =
     map_of (rev (map (\<lambda>r. (dep_Contract r, Est_Deployment_Cost r)) (ethereum_df df)))"

text \<open>\<open>Series.map(dict)\<close>: a key that the dictionary does not have maps to NaN.\<close>

definition map_dict :: "(string \<rightharpoonup> fval) \<Rightarrow> string \<Rightarrow> fval" where
  "map_dict m k = (case m k of None \<Rightarrow> NaN | Some v \<Rightarrow> v)"

definition add_discount :: "(string \<rightharpoonup> fval) \<Rightarrow> fval dep_row \<Rightarrow> comparison_row" where
  "add_discount m r =
     (let e = map_dict m (dep_Contract r);
          d = fsub e (Est_Deployment_Cost r)
      in \<lparr>cmp_Contract = dep_Contract r, cmp_Network = dep_Network r,
          cmp_Est_Deployment_Cost = Est_Deployment_Cost r,
          Ethereum_Cost = e, Discount_USD = d,
          Discount_pct = fmul (fdiv d e) (Fin 100)\<rparr>)"

definition comparison_df :: "fval dep_row list \<Rightarrow> comparison_row list" where
  "comparison_df df =
     map (add_discount (ethereum_cost_map df)) (filter (\<lambda>r. dep_Network r \<noteq> ''Ethereum'') df)"

section \<open>Raw cells and the two cost cleaners\<close>

text \<open>
  A cell of a cost column as the loader hands it over: a Python string, or a float (NaN
  for a missing cell). The conversion of a string to a float is done by the libraries
  (\<open>pandas.to_numeric\<close>, Python's \<open>float\<close>); the cleaners take it as the parameter
  \<open>conv\<close>, which answers \<open>None\<close> on a string that is not a number.
\<close>

datatype cell = Str string | Num fval

datatype py_error = ValueError | KeyError | IndexError | UnboundLocalError

text \<open>
  A conversion for plain decimal literals (sign, digits, optional fraction), used at the
  concrete inputs of the examples below.
\<close>

definition digit_val :: "char \<Rightarrow> nat option" where
  "digit_val =
     map_of [(CHR ''0'', 0), (CHR ''1'', 1), (CHR ''2'', 2), (CHR ''3'', 3), (CHR ''4'', 4),
             (CHR ''5'', 5), (CHR ''6'', 6), (CHR ''7'', 7), (CHR ''8'', 8), (CHR ''9'', 9)]"

fun digits_val :: "nat \<Rightarrow> string \<Rightarrow> nat option" where
  "digits_val acc [] = Some acc"
| "digits_val acc (c # cs) =
     (case digit_val c of None \<Rightarrow> None | Some d \<Rightarrow> digits_val (10 * acc + d) cs)"

definition unsigned_literal :: "string \<Rightarrow> rat option" where
  "unsigned_literal s =
     (let ip = takeWhile (\<lambda>c. c \<noteq> CHR ''.'') s;
          fp = drop 1 (dropWhile (\<lambda>c. c \<noteq> CHR ''.'') s)
      in if ip = [] \<and> fp = [] then None
         else (case (digits_val 0 ip, digits_val 0 fp) of
                 (Some i, Some f) \<Rightarrow> Some (of_nat i + of_nat f / 10 ^ length fp)
               | _ \<Rightarrow> None))"

definition decimal_literal :: "string \<Rightarrow> fval option" where
  "decimal_literal s =
     (case s of
        [] \<Rightarrow> None
      | c # t \<Rightarrow>
          if c = CHR ''-'' then map_option (\<lambda>q. Fin (- q)) (unsigned_literal t)
          else if c = CHR ''+'' then map_option Fin (unsigned_literal t)
          else map_option Fin (unsigned_literal s))"

subsection \<open>panda.py, lines 16 and 18\<close>

text \<open>A row of \<open>output.csv\<close>.\<close>

record 'c row =
  Contract :: string
  Method :: string
  Network :: string
  USD_Avg :: 'c





subsection \<open>deployment.py, line 21\<close>

text \<open>
  \<open>.replace({'\$': ''}, regex=True)\<close> deletes every dollar sign of a string cell and
  leaves the other cells as they are; \<open>.astype(float)\<close> converts each string and raises
  \<open>ValueError\<close> at the first one that is not a number, so no table is produced then.
\<close>

definition replace_dollar :: "cell \<Rightarrow> cell" where
  "replace_dollar c =
     (case c of Str s \<Rightarrow> Str (filter (\<lambda>ch. ch \<noteq> CHR ''$'') s) | Num v \<Rightarrow> Num v)"

definition astype_float :: "(string \<Rightarrow> fval option) \<Rightarrow> cell \<Rightarrow> py_error + fval" where
  "astype_float conv c =
     (case c of
        Num v \<Rightarrow> Inr v
      | Str s \<Rightarrow> (case conv s of None \<Rightarrow> Inl ValueError | Some v \<Rightarrow> Inr v))"

fun clean_deployment_cost ::
  "(string \<Rightarrow> fval option) \<Rightarrow> cell dep_row list \<Rightarrow> py_error + fval dep_row list" where
  "clean_deployment_cost conv [] = Inr []"
| "clean_deployment_cost conv (r # rs) =
     (case astype_float conv (replace_dollar (Est_Deployment_Cost r)) of
        Inl e \<Rightarrow> Inl e
      | Inr v \<Rightarrow>
          (case clean_deployment_cost conv rs of
             Inl e \<Rightarrow> Inl e
           | Inr rs' \<Rightarrow>
               Inr (\<lparr>dep_Contract = dep_Contract r, dep_Network = dep_Network r,
                     Est_Deployment_Cost = v\<rparr> # rs')))"

section \<open>panda.py: the two charts\<close>

definition execution_df :: "fval row list \<Rightarrow> fval row list" where
  "execution_df df = filter (\<lambda>r. Method r \<noteq> ''deployment'') df"

definition deployment_df :: "fval row list \<Rightarrow> fval row list" where
  "deployment_df df = filter (\<lambda>r. Method r = ''deployment'') df"

text \<open>
  \<open>groupby(['Method', 'Network'])['USD Avg'].sum().reset_index()\<close>: one row for each
  pair of labels that occurs, the pairs in sorted order, with the sum of the group.
\<close>

definition total_cost_by_function :: "fval row list \<Rightarrow> ((string \<times> string) \<times> fval) list" where
  "total_cost_by_function df =
     map (\<lambda>k. (k, series_sum (map USD_Avg
                    (filter (\<lambda>r. (Method r, Network r) = k) (execution_df df)))))
         (sort (remdups (map (\<lambda>r. (Method r, Network r)) (execution_df df))))"

text \<open>
  A pivoted table: the row labels, the column labels and the cell at a pair of labels.
  \<open>DataFrame.pivot\<close> aggregates nothing: it raises \<open>ValueError\<close> (``Index contains
  duplicate entries, cannot reshape'') when two rows have the same pair of labels, and
  it leaves NaN in a cell that no row fills.
\<close>

record pivot_tbl =
  pv_index :: "string list"
  pv_columns :: "string list"
  pv_cell :: "string \<Rightarrow> string \<Rightarrow> fval"

definition pivot :: "((string \<times> string) \<times> fval) list \<Rightarrow> py_error + pivot_tbl" where
  "pivot rows =
     (if \<not> distinct (map fst rows) then Inl ValueError
      else Inr \<lparr>pv_index = sort (remdups (map (fst \<circ> fst) rows)),
                pv_columns = sort (remdups (map (snd \<circ> fst) rows)),
                pv_cell = (\<lambda>i c. case map_of rows (i, c) of None \<Rightarrow> NaN | Some v \<Rightarrow> v)\<rparr>)"

definition fillna :: "fval \<Rightarrow> pivot_tbl \<Rightarrow> pivot_tbl" where
  "fillna v p = p\<lparr>pv_cell := (\<lambda>i c. if isnan (pv_cell p i c) then v else pv_cell p i c)\<rparr>"

definition pivot_execution :: "fval row list \<Rightarrow> py_error + pivot_tbl" where
  "pivot_execution df = map_sum id (fillna (Fin 0)) (pivot (total_cost_by_function df))"

definition pivot_deployment :: "fval row list \<Rightarrow> py_error + pivot_tbl" where
  "pivot_deployment df =
     map_sum id (fillna (Fin 0))
       (pivot (map (\<lambda>r. ((Contract r, Network r), USD_Avg r)) (deployment_df df)))"

section \<open>avg\_cost.py\<close>

text \<open>
  A row of \<open>contract.csv\<close>. The script reads the file and does not clean it: the
  \<open>usd avg\<close> column is the float column that the loader built, a blank cell being NaN.
\<close>

record gas_row =
  gas_Contract :: string
  Function :: string
  gas_Network :: string
  usd_avg :: fval

text \<open>\<open>Series.unique()\<close>: the distinct values in the order of their first occurrence.\<close>

definition unique :: "'a list \<Rightarrow> 'a list" where
  "unique xs = rev (remdups (rev xs))"

text \<open>
  \<open>groupby(key)[value].mean()\<close> on a list of (key, value) pairs: one entry for each key,
  the keys in sorted order.
\<close>

definition groupby_mean :: "('k::linorder \<times> fval) list \<Rightarrow> ('k \<times> fval) list" where
  "groupby_mean kvs =
     map (\<lambda>k. (k, series_mean (map snd (filter (\<lambda>p. fst p = k) kvs))))
         (sort (remdups (map fst kvs)))"

text \<open>
  \<open>Series.sort_values()\<close> with its defaults (\<open>kind='quicksort'\<close>,
  \<open>na_position='last'\<close>): the entries that are not NaN in ascending order, then the NaN
  entries in the order they had. The default algorithm is not a stable one, so the order
  of entries with equal values is not fixed; \<open>sort_values_result xs ys\<close> says that
  \<open>ys\<close> is a result the call may give on \<open>xs\<close>.
\<close>

definition sort_values_result :: "('k \<times> fval) list \<Rightarrow> ('k \<times> fval) list \<Rightarrow> bool" where
  "sort_values_result xs ys =
     (let nn = filter (\<lambda>p. \<not> isnan (snd p)) ys
      in mset nn = mset (filter (\<lambda>p. \<not> isnan (snd p)) xs) \<and>
         sorted_wrt (\<lambda>p q. fle (snd p) (snd q)) nn \<and>
         ys = nn @ filter (\<lambda>p. isnan (snd p)) xs)"

definition network_avg_groups :: "gas_row list \<Rightarrow> (string \<times> fval) list" where
  "network_avg_groups df = groupby_mean (map (\<lambda>r. (gas_Network r, usd_avg r)) df)"

text \<open>\<open>enumerate(network_avg.items(), 1)\<close>.\<close>

definition ranking :: "(string \<times> fval) list \<Rightarrow> (nat \<times> string \<times> fval) list" where
  "ranking network_avg = zip [1..<Suc (length network_avg)] network_avg"

text \<open>
  \<open>pivot_table(values='usd avg', index='Function', columns='Network', aggfunc='mean')\<close>:
  the mean of each (Function, Network) group; a group whose mean is NaN is dropped
  (\<open>dropna=True\<close>), and a cell without a group is NaN. No \<open>fill_value\<close> is given.
\<close>

definition pivot_data :: "gas_row list \<Rightarrow> pivot_tbl" where
  "pivot_data df =
     (let g = filter (\<lambda>p. \<not> isnan (snd p))
                (groupby_mean (map (\<lambda>r. ((Function r, gas_Network r), usd_avg r)) df))
      in \<lparr>pv_index = sort (remdups (map (fst \<circ> fst) g)),
          pv_columns = sort (remdups (map (snd \<circ> fst) g)),
          pv_cell = (\<lambda>i c. case map_of g (i, c) of None \<Rightarrow> NaN | Some v \<Rightarrow> v)\<rparr>)"

text \<open>
  \<open>idxmax\<close> and \<open>idxmin\<close> of a series given with its row labels, followed by the
  \<open>df.loc\<close> lookup of the label: NaN entries are skipped and the first extremum wins.
  On an empty series \<open>idxmax\<close> raises \<open>ValueError\<close>; on a series of NaN only it returns
  NaN (pandas 1 and 2) and the lookup of that label raises \<open>KeyError\<close>.
\<close>

fun first_max :: "nat \<times> fval \<Rightarrow> (nat \<times> fval) list \<Rightarrow> nat" where
  "first_max (i, v) [] = i"
| "first_max (i, v) ((j, w) # rest) =
     (if fle w v then first_max (i, v) rest else first_max (j, w) rest)"

fun first_min :: "nat \<times> fval \<Rightarrow> (nat \<times> fval) list \<Rightarrow> nat" where
  "first_min (i, v) [] = i"
| "first_min (i, v) ((j, w) # rest) =
     (if fle v w then first_min (i, v) rest else first_min (j, w) rest)"

definition idxmax :: "(nat \<times> fval) list \<Rightarrow> py_error + nat" where
  "idxmax s =
     (if s = [] then Inl ValueError
      else (case filter (\<lambda>p. \<not> isnan (snd p)) s of
              [] \<Rightarrow> Inl KeyError
            | p # ps \<Rightarrow> Inr (first_max p ps)))"

definition idxmin :: "(nat \<times> fval) list \<Rightarrow> py_error + nat" where
  "idxmin s =
     (if s = [] then Inl ValueError
      else (case filter (\<lambda>p. \<not> isnan (snd p)) s of
              [] \<Rightarrow> Inl KeyError
            | p # ps \<Rightarrow> Inr (first_min p ps)))"

definition labelled :: "gas_row list \<Rightarrow> (nat \<times> gas_row) list" where
  "labelled df = zip [0..<length df] df"

definition usd_avg_series :: "(nat \<times> gas_row) list \<Rightarrow> (nat \<times> fval) list" where
  "usd_avg_series ldf = map (\<lambda>p. (fst p, usd_avg (snd p))) ldf"

definition most_expensive :: "gas_row list \<Rightarrow> py_error + gas_row" where
  "most_expensive df = map_sum id (\<lambda>i. df ! i) (idxmax (usd_avg_series (labelled df)))"

definition least_expensive :: "gas_row list \<Rightarrow> py_error + gas_row" where
  "least_expensive df = map_sum id (\<lambda>i. df ! i) (idxmin (usd_avg_series (labelled df)))"

fun collect :: "('e + 'a) list \<Rightarrow> 'e + 'a list" where
  "collect [] = Inr []"
| "collect (Inl e # _) = Inl e"
| "collect (Inr x # rest) = (case collect rest of Inl e \<Rightarrow> Inl e | Inr xs \<Rightarrow> Inr (x # xs))"

text \<open>\<open>df.loc[df.groupby('Network')['usd avg'].idxmax()]\<close>.\<close>

definition most_expensive_per_network :: "gas_row list \<Rightarrow> py_error + gas_row list" where
  "most_expensive_per_network df =
     collect (map (\<lambda>k. map_sum id (\<lambda>i. df ! i)
                     (idxmax (usd_avg_series (filter (\<lambda>p. gas_Network (snd p) = k) (labelled df)))))
                (sort (remdups (map gas_Network df))))"

section \<open>The runs and their effects\<close>

text \<open>
  What a run does to the outside is a list of events, in order, together with the
  exception that ended it, if one did. A printed line whose text is a literal is kept as
  text; a printed line that formats computed values is kept as the values it formats.
  The plotting calls are external: each is taken to succeed, and only the file that
  \<open>savefig\<close> writes is recorded.
\<close>

datatype event =
    MakeDirs string
  | SaveFig string
  | Print string
  | PrintRank nat string fval
  | PrintOperation string gas_row
  | PrintNetworkOperation gas_row
  | PrintCost string fval
  | PrintTable "comparison_row list"

record 't file_system =
  csv_files :: "string \<rightharpoonup> 't"
  directories :: "string set"

definition quoted :: "string \<Rightarrow> string" where
  "quoted s = CHR 0x27 # s @ [CHR 0x27]"

definition output_dir :: string where
  "output_dir = ''gas_cost_analysis_charts''"

definition path_join :: "string \<Rightarrow> string \<Rightarrow> string" where
  "path_join d f = d @ ''/'' @ f"

definition rule :: "nat \<Rightarrow> char \<Rightarrow> string" where
  "rule n c = replicate n c"

text \<open>Section 4 of \<open>analyze_gas_costs\<close> (lines 113 to 141), given the sorted series.\<close>

definition statistical_summary ::
  "gas_row list \<Rightarrow> (string \<times> fval) list \<Rightarrow> event list \<times> py_error option" where
  "statistical_summary df network_avg =
     (let ev1 = [Print (CHR 0x0A # rule 80 CHR ''=''), Print ''GAS COST STATISTICAL SUMMARY'',
                 Print (rule 80 CHR ''=''),
                 Print (CHR 0x0A #
                   ''1. NETWORK COST EFFICIENCY RANKING (Lowest Average Cost First):''),
                 Print (rule 60 CHR ''-'')]
                @ map (\<lambda>(rank, network, cost). PrintRank rank network cost) (ranking network_avg)
                @ [Print (CHR 0x0A # ''2. OVERALL MOST & LEAST EXPENSIVE OPERATIONS:''),
                   Print (rule 60 CHR ''-'')]
      in case most_expensive df of
           Inl e \<Rightarrow> (ev1, Some e)
         | Inr hi \<Rightarrow>
        (case least_expensive df of
           Inl e \<Rightarrow> (ev1, Some e)
         | Inr lo \<Rightarrow>
        (let ev2 = ev1 @ [PrintOperation ''Most Expensive'' hi,
                          PrintOperation ''Least Expensive'' lo,
                          Print (CHR 0x0A # ''3. MOST EXPENSIVE OPERATION PER NETWORK:''),
                          Print (rule 60 CHR ''-'')]
         in case most_expensive_per_network df of
              Inl e \<Rightarrow> (ev2, Some e)
            | Inr rows \<Rightarrow>
                (ev2 @ map PrintNetworkOperation rows
                     @ [Print (CHR 0x0A # rule 80 CHR ''=''),
                        Print ''Analysis complete. All charts have been exported.'',
                        Print (rule 80 CHR ''='')], None))))"

text \<open>
  \<open>analyze_gas_costs\<close>. \<open>srt\<close> stands for the library's \<open>sort_values\<close>. When the table
  has no row, the loop of line 43 never binds \<open>i\<close> and line 63 raises
  \<open>UnboundLocalError\<close>.
\<close>

definition analyze_gas_costs ::
  "((string \<times> fval) list \<Rightarrow> (string \<times> fval) list) \<Rightarrow> gas_row list file_system \<Rightarrow> string
     \<Rightarrow> event list \<times> py_error option" where
  "analyze_gas_costs srt fs filepath =
     (case csv_files fs filepath of
        None \<Rightarrow> ([Print (''Error: The file '' @ quoted filepath @ '' was not found.'')], None)
      | Some df \<Rightarrow>
          (let ev1 = (if output_dir \<in> directories fs then [] else [MakeDirs output_dir])
                     @ [Print ''Generating merged 3x2 grid of bar charts...'']
           in if unique (map gas_Contract df) = [] then (ev1, Some UnboundLocalError)
              else
                (let merged_chart_path = path_join output_dir ''merged_contract_cost_comparison.png'';
                     heatmap_path = path_join output_dir ''cost_heatmap.png'';
                     boxplot_path = path_join output_dir ''cost_distribution_boxplot.png'';
                     ev2 = ev1 @
                       [SaveFig merged_chart_path,
                        Print (''Saved merged contract chart to '' @ quoted merged_chart_path),
                        Print (CHR 0x0A # ''Generating cost heatmap...''),
                        SaveFig heatmap_path,
                        Print (''Saved heatmap to '' @ quoted heatmap_path),
                        Print (CHR 0x0A # ''Generating cost distribution box plot...''),
                        SaveFig boxplot_path,
                        Print (''Saved box plot to '' @ quoted boxplot_path)];
                     s = statistical_summary df (srt (network_avg_groups df))
                 in (ev2 @ fst s, snd s))))"

text \<open>
  deployment.py from its first line to its last chart (line 226). A missing file is
  replaced by the table of lines 12 to 17. With more than six contracts, line 95 indexes
  the six subplots out of range.
\<close>

definition dummy_data :: "cell dep_row list" where
  "dummy_data =
     map (\<lambda>(c, n, v). \<lparr>dep_Contract = c, dep_Network = n, Est_Deployment_Cost = Str v\<rparr>)
       [(''ERC20'', ''Ethereum'', ''$55.20''), (''ERC20'', ''Polygon'', ''$0.08''),
        (''ERC20'', ''Arbitrum'', ''$0.95''), (''ERC721'', ''Ethereum'', ''$120.50''),
        (''ERC721'', ''Polygon'', ''$0.15''), (''ERC721'', ''Arbitrum'', ''$1.50''),
        (''ERC1155'', ''Ethereum'', ''$150.75''), (''ERC1155'', ''Polygon'', ''$0.20''),
        (''ERC1155'', ''Arbitrum'', ''$2.10''), (''Proxy'', ''Ethereum'', ''$80.00''),
        (''Proxy'', ''Polygon'', ''$0.12''), (''Proxy'', ''Arbitrum'', ''$1.20''),
        (''Vesting'', ''Ethereum'', ''$95.30''), (''Vesting'', ''Polygon'', ''$0.14''),
        (''Vesting'', ''Arbitrum'', ''$1.35''), (''DAO'', ''Ethereum'', ''$250.00''),
        (''DAO'', ''Polygon'', ''$0.30''), (''DAO'', ''Arbitrum'', ''$3.00'')]"

definition load_deployment :: "cell dep_row list file_system \<Rightarrow> event list \<times> cell dep_row list" where
  "load_deployment fs =
     (case csv_files fs ''deploymentgasestimation.csv'' of
        Some df \<Rightarrow> ([], df)
      | None \<Rightarrow>
          ([Print (''deploymentgasestimation.csv not found. '' @
                   ''Creating a dummy dataframe for demonstration.'')], dummy_data))"

text \<open>
  The sort of line 61 has two keys and is stable; a NaN cost comes last within its
  contract.
\<close>

fun cost_key :: "fval \<Rightarrow> nat \<times> rat" where
  "cost_key NInf = (0, 0)"
| "cost_key (Fin a) = (1, a)"
| "cost_key PInf = (2, 0)"
| "cost_key NaN = (3, 0)"

definition formatted_table :: "fval dep_row list \<Rightarrow> comparison_row list" where
  "formatted_table df =
     sort_key (\<lambda>r. (cmp_Contract r, cost_key (cmp_Est_Deployment_Cost r))) (comparison_df df)"

definition df_filtered :: "fval dep_row list \<Rightarrow> fval dep_row list" where
  "df_filtered df = filter (\<lambda>r. dep_Network r \<noteq> ''Ethereum'') df"

definition contracts :: "fval dep_row list \<Rightarrow> string list" where
  "contracts df = unique (map dep_Contract (df_filtered df))"

definition network_avg_costs_groups :: "fval dep_row list \<Rightarrow> (string \<times> fval) list" where
  "network_avg_costs_groups df =
     groupby_mean (map (\<lambda>r. (dep_Network r, Est_Deployment_Cost r)) (df_filtered df))"

definition deployment_main ::
  "(string \<Rightarrow> fval option) \<Rightarrow> cell dep_row list file_system \<Rightarrow> event list \<times> py_error option" where
  "deployment_main conv fs =
     (let ev0 = fst (load_deployment fs)
      in case clean_deployment_cost conv (snd (load_deployment fs)) of
           Inl e \<Rightarrow> (ev0, Some e)
         | Inr df \<Rightarrow>
             (let ev1 = ev0 @
                    [Print ''--- Ethereum Deployment Cost Summary ---'',
                     PrintCost ''Total Estimated Cost for all contracts on Ethereum''
                       (total_ethereum_cost df),
                     PrintCost ''Average Estimated Cost for a contract on Ethereum''
                       (average_ethereum_cost df),
                     Print (rule 40 CHR ''-''),
                     Print (CHR 0x0A # ''--- Deployment Cost Comparison vs. Ethereum ---''),
                     PrintTable (formatted_table df),
                     Print (CHR 0x0A # rule 80 CHR ''='' @ [CHR 0x0A])]
              in if 6 < length (contracts df) then (ev1, Some IndexError)
                 else (ev1 @ [SaveFig ''deployment_costs_bar_charts.png'',
                              SaveFig ''deployment_costs_line_charts.png'',
                              SaveFig ''deployment_costs_summary.png''], None)))"

section \<open>Example tables\<close>


definition zero_baseline_example :: "fval \<Rightarrow> fval dep_row list" where
  "zero_baseline_example c =
     [\<lparr>dep_Contract = ''cX'', dep_Network = ''Ethereum'', Est_Deployment_Cost = Fin 0\<rparr>,
      \<lparr>dep_Contract = ''cX'', dep_Network = ''netB'', Est_Deployment_Cost = c\<rparr>]"

definition no_baseline_example :: "fval dep_row list" where
  "no_baseline_example =
     [\<lparr>dep_Contract = ''cX'', dep_Network = ''netB'', Est_Deployment_Cost = Fin 5\<rparr>]"




definition pivot_example :: "fval row list" where
  "pivot_example =
     [\<lparr>Contract = ''Token'', Method = ''transfer'', Network = ''netA'', USD_Avg = Fin 0\<rparr>,
      \<lparr>Contract = ''Token'', Method = ''mint'', Network = ''netB'', USD_Avg = Fin 2\<rparr>]"

definition gas_pivot_example :: "gas_row list" where
  "gas_pivot_example =
     [\<lparr>gas_Contract = ''Token'', Function = ''transfer'', gas_Network = ''netA'', usd_avg = Fin 0\<rparr>,
      \<lparr>gas_Contract = ''Token'', Function = ''mint'', gas_Network = ''netB'', usd_avg = Fin 2\<rparr>]"




text \<open>One result that \<open>sort_values\<close> may give: that of a stable sort.\<close>

definition sort_values_stable :: "('k \<times> fval) list \<Rightarrow> ('k \<times> fval) list" where
  "sort_values_stable xs = sort_key (\<lambda>p. cost_key (snd p)) xs"

definition no_files :: "'t file_system" where
  "no_files = \<lparr>csv_files = Map.empty, directories = {}\<rparr>"




section \<open>The comparison against the baseline\<close>

lemmas comparison_eval =
  comparison_df_def ethereum_cost_map_def ethereum_df_def add_discount_def map_dict_def
  fsub_def Let_def

lemma comparison_row_origin:
  "row \<in> set (comparison_df df) \<Longrightarrow>
     \<exists>r \<in> set df. dep_Network r \<noteq> ''Ethereum'' \<and> row = add_discount (ethereum_cost_map df) r"
  by (auto simp: comparison_df_def)

lemma add_discount_fields:
  "cmp_Contract (add_discount m r) = dep_Contract r"
  "cmp_Network (add_discount m r) = dep_Network r"
  "cmp_Est_Deployment_Cost (add_discount m r) = Est_Deployment_Cost r"
  "Ethereum_Cost (add_discount m r) = map_dict m (dep_Contract r)"
  "Discount_USD (add_discount m r) = fsub (map_dict m (dep_Contract r)) (Est_Deployment_Cost r)"
  "Discount_pct (add_discount m r) =
     fmul (fdiv (fsub (map_dict m (dep_Contract r)) (Est_Deployment_Cost r))
                (map_dict m (dep_Contract r))) (Fin 100)"
  by (simp_all add: add_discount_def Let_def)

lemma ethereum_cost_map_None:
  "ethereum_cost_map df k = None \<longleftrightarrow>
     (\<forall>e \<in> set df. dep_Network e = ''Ethereum'' \<longrightarrow> dep_Contract e \<noteq> k)"
  by (force simp: ethereum_cost_map_def ethereum_df_def map_of_eq_None_iff)



text \<open>
  Claim C5, as stated, fails: with a baseline of exactly zero and another cost of 5.0 the
  percentage is minus infinity, a float like any other in the column, and nothing marks
  it as undefined.
\<close>

theorem zero_baseline_counterexample:
  "comparison_df (zero_baseline_example (Fin 5)) =
     [\<lparr>cmp_Contract = ''cX'', cmp_Network = ''netB'', cmp_Est_Deployment_Cost = Fin 5,
       Ethereum_Cost = Fin 0, Discount_USD = Fin (- 5), Discount_pct = NInf\<rparr>]"
  by (simp add: zero_baseline_example_def comparison_eval)

text \<open>
  Claim C5, amended. For a row whose matched baseline is exactly zero the division is
  carried out on the floats and raises nothing: the percentage is NaN when the row's own
  cost is zero or NaN, and an infinity otherwise. It is never a finite number, and no
  other marker is produced.
\<close>

theorem zero_baseline_not_finite:
  assumes "row \<in> set (comparison_df df)"
    and "ethereum_cost_map df (cmp_Contract row) = Some (Fin 0)"
  shows "Discount_pct row =
           fmul (fdiv (fneg (cmp_Est_Deployment_Cost row)) (Fin 0)) (Fin 100) \<and>
         (Discount_pct row = NaN \<longleftrightarrow>
            cmp_Est_Deployment_Cost row = Fin 0 \<or> cmp_Est_Deployment_Cost row = NaN) \<and>
         (Discount_pct row = NaN \<or> Discount_pct row = PInf \<or> Discount_pct row = NInf)"
proof -
  from assms(1) obtain r where r: "row = add_discount (ethereum_cost_map df) r"
    using comparison_row_origin by blast
  from assms(2) have m: "map_dict (ethereum_cost_map df) (dep_Contract r) = Fin 0"
    by (simp add: r add_discount_fields map_dict_def)
  show ?thesis
    by (cases "Est_Deployment_Cost r") (auto simp: r add_discount_fields m fsub_def)
qed

theorem zero_baseline_not_finite_witness:
  "comparison_df (zero_baseline_example (Fin 0)) =
     [\<lparr>cmp_Contract = ''cX'', cmp_Network = ''netB'', cmp_Est_Deployment_Cost = Fin 0,
       Ethereum_Cost = Fin 0, Discount_USD = Fin 0, Discount_pct = NaN\<rparr>] \<and>
   ethereum_cost_map (zero_baseline_example (Fin 0)) ''cX'' = Some (Fin 0) \<and>
   Discount_pct (hd (comparison_df (zero_baseline_example (Fin 0)))) =
     fmul (fdiv (fneg (Fin 0)) (Fin 0)) (Fin 100)"
proof -
  let ?df = "zero_baseline_example (Fin 0)"
  have e: "comparison_df ?df =
     [\<lparr>cmp_Contract = ''cX'', cmp_Network = ''netB'', cmp_Est_Deployment_Cost = Fin 0,
       Ethereum_Cost = Fin 0, Discount_USD = Fin 0, Discount_pct = NaN\<rparr>]"
    by (simp add: zero_baseline_example_def comparison_eval)
  have i: "hd (comparison_df ?df) \<in> set (comparison_df ?df)"
    unfolding e by simp
  have k: "cmp_Contract (hd (comparison_df ?df)) = ''cX''"
    unfolding e by simp
  have m: "ethereum_cost_map ?df (cmp_Contract (hd (comparison_df ?df))) = Some (Fin 0)"
    unfolding k by (simp add: zero_baseline_example_def ethereum_cost_map_def ethereum_df_def)
  have c: "cmp_Est_Deployment_Cost (hd (comparison_df ?df)) = Fin 0"
    unfolding e by simp
  note t = zero_baseline_not_finite [OF i m, THEN conjunct1]
  have "Discount_pct (hd (comparison_df ?df)) = fmul (fdiv (fneg (Fin 0)) (Fin 0)) (Fin 100)"
    using t unfolding c .
  with e m k show ?thesis by metis
qed

text \<open>
  Claim C7, as stated, fails: a row whose contract has no Ethereum row is not excluded.
  It stays in the comparison, with NaN in the three added columns.
\<close>

theorem missing_baseline_counterexample:
  "comparison_df no_baseline_example =
     [\<lparr>cmp_Contract = ''cX'', cmp_Network = ''netB'', cmp_Est_Deployment_Cost = Fin 5,
       Ethereum_Cost = NaN, Discount_USD = NaN, Discount_pct = NaN\<rparr>]"
  by (simp add: no_baseline_example_def comparison_eval)

text \<open>
  Claim C7, amended. The comparison has one row for each row of another network, in the
  order of the table, whether or not its contract has a baseline entry: nothing is
  excluded, and no count of missing baselines exists. A row whose contract has no
  Ethereum row is not given a zero baseline: its Ethereum cost and both discounts are NaN.
\<close>

theorem missing_baseline_kept:
  "map (\<lambda>row. (cmp_Contract row, cmp_Network row, cmp_Est_Deployment_Cost row)) (comparison_df df)
     = map (\<lambda>r. (dep_Contract r, dep_Network r, Est_Deployment_Cost r))
         (filter (\<lambda>r. dep_Network r \<noteq> ''Ethereum'') df) \<and>
   (\<forall>row \<in> set (comparison_df df).
      (\<forall>e \<in> set df. dep_Network e = ''Ethereum'' \<longrightarrow> dep_Contract e \<noteq> cmp_Contract row) \<longrightarrow>
      Ethereum_Cost row = NaN \<and> Discount_USD row = NaN \<and> Discount_pct row = NaN)"
proof (intro conjI ballI impI)
  show "map (\<lambda>row. (cmp_Contract row, cmp_Network row, cmp_Est_Deployment_Cost row)) (comparison_df df)
     = map (\<lambda>r. (dep_Contract r, dep_Network r, Est_Deployment_Cost r))
         (filter (\<lambda>r. dep_Network r \<noteq> ''Ethereum'') df)"
    by (simp add: comparison_df_def add_discount_fields comp_def)
next
  fix row
  assume row: "row \<in> set (comparison_df df)"
    and none: "\<forall>e \<in> set df. dep_Network e = ''Ethereum'' \<longrightarrow> dep_Contract e \<noteq> cmp_Contract row"
  from row obtain r where r: "row = add_discount (ethereum_cost_map df) r"
    using comparison_row_origin by blast
  from none have "ethereum_cost_map df (cmp_Contract row) = None"
    by (simp add: ethereum_cost_map_None)
  then have m: "map_dict (ethereum_cost_map df) (dep_Contract r) = NaN"
    by (simp add: r add_discount_fields map_dict_def)
  show "Ethereum_Cost row = NaN" "Discount_USD row = NaN" "Discount_pct row = NaN"
    by (simp_all add: r add_discount_fields m fsub_def)
qed

theorem missing_baseline_kept_witness:
  "length (comparison_df no_baseline_example) = 1 \<and>
   Ethereum_Cost (hd (comparison_df no_baseline_example)) = NaN \<and>
   Discount_USD (hd (comparison_df no_baseline_example)) = NaN \<and>
   Discount_pct (hd (comparison_df no_baseline_example)) = NaN"
proof -
  let ?df = "no_baseline_example"
  note t = missing_baseline_kept [of ?df]
  have "length (map (\<lambda>row. (cmp_Contract row, cmp_Network row, cmp_Est_Deployment_Cost row))
      (comparison_df ?df)) = 1"
    unfolding t [THEN conjunct1] by (simp add: no_baseline_example_def)
  then have l: "length (comparison_df ?df) = 1" by simp
  then have i: "hd (comparison_df ?df) \<in> set (comparison_df ?df)"
    by (cases "comparison_df ?df") simp_all
  have c: "cmp_Contract (hd (comparison_df ?df)) = ''cX''"
    by (simp add: comparison_df_def add_discount_fields no_baseline_example_def)
  have n: "\<forall>e \<in> set ?df. dep_Network e = ''Ethereum'' \<longrightarrow>
             dep_Contract e \<noteq> cmp_Contract (hd (comparison_df ?df))"
    unfolding c by (simp add: no_baseline_example_def)
  from t [THEN conjunct2, THEN bspec, OF i, THEN mp, OF n] l show ?thesis by blast
qed

section \<open>The cost cleaners\<close>

lemmas literal_eval = decimal_literal_def unsigned_literal_def digit_val_def




lemma clean_deployment_cost_succeeds:
  "(\<exists>df'. clean_deployment_cost conv d = Inr df') \<longleftrightarrow>
     (\<forall>r \<in> set d. \<exists>v. astype_float conv (replace_dollar (Est_Deployment_Cost r)) = Inr v)"
  by (induction d) (auto split: sum.splits)

lemma clean_deployment_cost_error:
  "clean_deployment_cost conv d = Inl e \<Longrightarrow> e = ValueError"
  by (induction d arbitrary: e) (auto split: sum.splits simp: astype_float_def split: cell.splits option.splits)




section \<open>panda.py: the split into the two charts\<close>

lemma filter_key_execution:
  "m \<noteq> ''deployment'' \<Longrightarrow>
     filter (\<lambda>r. Method r = m \<and> Network r = n) (execution_df df)
       = filter (\<lambda>r. Method r = m \<and> Network r = n) df"
  by (induction df) (auto simp: execution_df_def)

lemma total_cost_by_function_keys:
  "map fst (total_cost_by_function df) =
     sort (remdups (map (\<lambda>r. (Method r, Network r)) (execution_df df)))"
  by (simp add: total_cost_by_function_def comp_def)

lemma total_cost_by_function_entry:
  assumes "((m, n), v) \<in> set (total_cost_by_function df)"
  shows "m \<noteq> ''deployment'' \<and>
         (\<exists>r \<in> set df. Method r = m \<and> Network r = n) \<and>
         v = series_sum (map USD_Avg (filter (\<lambda>r. Method r = m \<and> Network r = n) df))"
proof -
  from assms have k: "(m, n) \<in> set (map (\<lambda>r. (Method r, Network r)) (execution_df df))"
    and v: "v = series_sum (map USD_Avg
                  (filter (\<lambda>r. (Method r, Network r) = (m, n)) (execution_df df)))"
    by (auto simp: total_cost_by_function_def)
  from k have m: "m \<noteq> ''deployment''" and ex: "\<exists>r \<in> set df. Method r = m \<and> Network r = n"
    by (auto simp: execution_df_def)
  from v m ex show ?thesis
    by (simp add: filter_key_execution)
qed



section \<open>The pivots\<close>

lemma map_of_keyed:
  "map_of (map (\<lambda>k. (k, f k)) ks) k = (if k \<in> set ks then Some (f k) else None)"
  by (induction ks) auto

lemma pivot_Inr:
  "distinct (map fst rows) \<Longrightarrow> \<exists>p. pivot rows = Inr p"
  by (simp add: pivot_def)

lemma pivot_cell_missing:
  assumes "pivot rows = Inr p" and "(i, c) \<notin> fst ` set rows"
  shows "pv_cell p i c = NaN"
proof -
  from assms(2) have "map_of rows (i, c) = None"
    by (simp add: map_of_eq_None_iff)
  with assms(1) show ?thesis
    by (auto simp: pivot_def split: if_splits)
qed

lemma fillna_cell:
  "pv_cell (fillna v p) i c = (if isnan (pv_cell p i c) then v else pv_cell p i c)"
  by (simp add: fillna_def)

lemma pivot_execution_succeeds: "\<exists>p. pivot_execution df = Inr p"
proof -
  have "distinct (map fst (total_cost_by_function df))"
    by (simp add: total_cost_by_function_keys)
  then obtain q where "pivot (total_cost_by_function df) = Inr q"
    using pivot_Inr by blast
  then show ?thesis by (simp add: pivot_execution_def)
qed

lemma pivot_deployment_fails_iff:
  "pivot_deployment df = Inl e \<longleftrightarrow>
     e = ValueError \<and> \<not> distinct (map (\<lambda>r. (Contract r, Network r)) (deployment_df df))"
  by (auto simp: pivot_deployment_def pivot_def comp_def)

lemma pivot_data_missing:
  assumes "\<forall>r \<in> set gdf. Function r = i \<longrightarrow> gas_Network r \<noteq> c"
  shows "pv_cell (pivot_data gdf) i c = NaN"
proof -
  have "(i, c) \<notin> set (map (\<lambda>r. (Function r, gas_Network r)) gdf)"
    using assms by auto
  then have "map_of (groupby_mean (map (\<lambda>r. ((Function r, gas_Network r), usd_avg r)) gdf)) (i, c)
               = None"
    by (simp add: groupby_mean_def map_of_keyed comp_def)
  then have "map_of (filter (\<lambda>p. \<not> isnan (snd p))
               (groupby_mean (map (\<lambda>r. ((Function r, gas_Network r), usd_avg r)) gdf))) (i, c)
               = None"
    by (auto simp: map_of_eq_None_iff)
  then show ?thesis
    by (simp add: pivot_data_def Let_def)
qed

text \<open>
  Claim C6, as stated, fails for the two pivots of panda.py, which end in \<open>fillna(0)\<close>:
  in the execution pivot of the example the cell (transfer, netB), which no row fills,
  holds the number 0, the same as the cell (transfer, netA), whose rows cost 0.
\<close>

theorem pivot_missing_counterexample:
  "map_sum id (\<lambda>p. (pv_index p, pv_columns p,
                    pv_cell p ''transfer'' ''netA'', pv_cell p ''transfer'' ''netB''))
     (pivot_execution pivot_example)
   = Inr ([''mint'', ''transfer''], [''netA'', ''netB''], Fin 0, Fin 0)"
  by (simp add: pivot_execution_def pivot_def total_cost_by_function_def execution_df_def
        pivot_example_def fillna_def series_sum_def)

text \<open>
  Claim C6, amended. The pivot of avg\_cost.py (\<open>pivot_table\<close>, no fill value) holds
  NaN, which is not the number 0, at a (Function, Network) pair that no row has. The
  two pivots of panda.py hold the number 0 at a pair that no row has, so that a missing
  combination cannot be told from a cost of zero there. The execution pivot never fails.
\<close>

theorem pivot_missing_cells:
  "(\<forall>i c. (\<forall>r \<in> set gdf. Function r = i \<longrightarrow> gas_Network r \<noteq> c) \<longrightarrow>
      pv_cell (pivot_data gdf) i c = NaN \<and> pv_cell (pivot_data gdf) i c \<noteq> Fin 0) \<and>
   (\<exists>p. pivot_execution df = Inr p) \<and>
   (\<forall>p i c. pivot_execution df = Inr p \<and>
      (\<forall>r \<in> set df. Method r \<noteq> ''deployment'' \<and> Method r = i \<longrightarrow> Network r \<noteq> c) \<longrightarrow>
      pv_cell p i c = Fin 0) \<and>
   (\<forall>p i c. pivot_deployment df = Inr p \<and>
      (\<forall>r \<in> set df. Method r = ''deployment'' \<and> Contract r = i \<longrightarrow> Network r \<noteq> c) \<longrightarrow>
      pv_cell p i c = Fin 0)"
proof (intro conjI allI impI)
  show "pv_cell (pivot_data gdf) i c = NaN"
    if "\<forall>r \<in> set gdf. Function r = i \<longrightarrow> gas_Network r \<noteq> c" for i c
    using that by (rule pivot_data_missing)
  then show "pv_cell (pivot_data gdf) i c \<noteq> Fin 0"
    if "\<forall>r \<in> set gdf. Function r = i \<longrightarrow> gas_Network r \<noteq> c" for i c
    using that by simp
  show "\<exists>p. pivot_execution df = Inr p"
    by (rule pivot_execution_succeeds)
next
  fix p i c
  assume a: "pivot_execution df = Inr p \<and>
      (\<forall>r \<in> set df. Method r \<noteq> ''deployment'' \<and> Method r = i \<longrightarrow> Network r \<noteq> c)"
  then obtain q where q: "pivot (total_cost_by_function df) = Inr q" and p: "p = fillna (Fin 0) q"
    by (cases "pivot (total_cost_by_function df)") (auto simp: pivot_execution_def)
  have "(i, c) \<notin> fst ` set (total_cost_by_function df)"
  proof
    assume "(i, c) \<in> fst ` set (total_cost_by_function df)"
    then obtain v where "((i, c), v) \<in> set (total_cost_by_function df)" by auto
    from total_cost_by_function_entry [OF this] a show False by auto
  qed
  from pivot_cell_missing [OF q this] show "pv_cell p i c = Fin 0"
    by (simp add: p fillna_cell)
next
  fix p i c
  assume a: "pivot_deployment df = Inr p \<and>
      (\<forall>r \<in> set df. Method r = ''deployment'' \<and> Contract r = i \<longrightarrow> Network r \<noteq> c)"
  let ?rows = "map (\<lambda>r. ((Contract r, Network r), USD_Avg r)) (deployment_df df)"
  from a obtain q where q: "pivot ?rows = Inr q" and p: "p = fillna (Fin 0) q"
    by (cases "pivot ?rows") (auto simp: pivot_deployment_def)
  have "(i, c) \<notin> fst ` set ?rows"
    using a by (auto simp: deployment_df_def)
  from pivot_cell_missing [OF q this] show "pv_cell p i c = Fin 0"
    by (simp add: p fillna_cell)
qed

theorem pivot_missing_cells_witness:
  "pv_cell (pivot_data gas_pivot_example) ''transfer'' ''netB'' = NaN \<and>
   pv_cell (pivot_data gas_pivot_example) ''transfer'' ''netA'' = Fin 0 \<and>
   map_sum id (\<lambda>p. pv_cell p ''transfer'' ''netB'') (pivot_execution pivot_example) = Inr (Fin 0)"
proof -
  note t = pivot_missing_cells [of gas_pivot_example pivot_example]
  have a: "pv_cell (pivot_data gas_pivot_example) ''transfer'' ''netB'' = NaN"
    by (rule t [THEN conjunct1, rule_format, THEN conjunct1])
       (auto simp: gas_pivot_example_def)
  have b: "pv_cell (pivot_data gas_pivot_example) ''transfer'' ''netA'' = Fin 0"
    by (simp add: pivot_data_def gas_pivot_example_def groupby_mean_def series_mean_def)
  from t [THEN conjunct2, THEN conjunct1] obtain p where p: "pivot_execution pivot_example = Inr p"
    by blast
  have n: "\<forall>r \<in> set pivot_example.
             Method r \<noteq> ''deployment'' \<and> Method r = ''transfer'' \<longrightarrow> Network r \<noteq> ''netB''"
    by (auto simp: pivot_example_def)
  have "pv_cell p ''transfer'' ''netB'' = Fin 0"
    by (rule t [THEN conjunct2, THEN conjunct2, THEN conjunct1, rule_format])
       (insert p n, blast)
  with a b p show ?thesis by simp
qed


section \<open>The ranking\<close>












section \<open>The stable sort is a result of \<open>sort_values\<close>\<close>

lemma cost_key_le_fle:
  "\<not> isnan a \<Longrightarrow> \<not> isnan b \<Longrightarrow> cost_key a \<le> cost_key b \<Longrightarrow> fle a b"
  by (cases a; cases b) (auto simp: less_eq_prod_def)

lemma cost_key_nan_max: "cost_key a \<le> (3, 0)"
  by (cases a) (auto simp: less_eq_prod_def)

lemma cost_key_less_nan: "\<not> isnan a \<Longrightarrow> cost_key a < (3, 0)"
  by (cases a) (auto simp: less_prod_def)

lemma isnan_eq: "isnan a \<longleftrightarrow> a = NaN"
  by (cases a) simp_all

lemma insort_key_append_left:
  "\<forall>b \<in> set B. f x \<le> f b \<Longrightarrow> insort_key f x (A @ B) = insort_key f x A @ B"
proof (induction A)
  case Nil
  then show ?case by (cases B) simp_all
next
  case (Cons a A)
  then show ?case by simp
qed

lemma insort_key_append_right:
  "\<forall>a \<in> set A. f a < f x \<Longrightarrow> \<forall>b \<in> set B. f x \<le> f b \<Longrightarrow>
     insort_key f x (A @ B) = A @ x # B"
proof (induction A)
  case Nil
  then show ?case by (cases B) simp_all
next
  case (Cons a A)
  then show ?case by (auto simp: less_le_not_le)
qed

lemma sort_values_stable_split:
  "sort_values_stable xs =
     sort_values_stable (filter (\<lambda>p. \<not> isnan (snd p)) xs) @ filter (\<lambda>p. isnan (snd p)) xs"
proof (induction xs)
  case Nil
  show ?case by (simp add: sort_values_stable_def)
next
  case (Cons x xs)
  let ?f = "\<lambda>p. cost_key (snd p)"
  let ?A = "sort_key ?f (filter (\<lambda>p. \<not> isnan (snd p)) xs)"
  let ?B = "filter (\<lambda>p. isnan (snd p)) xs"
  from Cons.IH have ih: "sort_key ?f xs = ?A @ ?B"
    by (simp add: sort_values_stable_def)
  have B: "\<forall>b \<in> set ?B. ?f x \<le> ?f b"
    by (auto simp: isnan_eq cost_key_nan_max)
  show ?case
  proof (cases "isnan (snd x)")
    case True
    have A: "\<forall>a \<in> set ?A. ?f a < ?f x"
      using True by (auto simp: isnan_eq [of "snd x"] cost_key_less_nan)
    from insort_key_append_right [OF A B] True show ?thesis
      by (simp add: sort_values_stable_def ih)
  next
    case False
    from insort_key_append_left [OF B, of ?A] False show ?thesis
      by (simp add: sort_values_stable_def ih)
  qed
qed

lemma sort_values_stable_result: "sort_values_result xs (sort_values_stable xs)"
proof -
  let ?f = "\<lambda>p. cost_key (snd p)"
  let ?P = "\<lambda>p. \<not> isnan (snd p)"
  let ?A = "sort_values_stable (filter ?P xs)"
  have nn: "filter ?P (sort_values_stable xs) = ?A"
    by (subst sort_values_stable_split) (simp add: sort_values_stable_def filter_sort)
  have "sorted (map ?f ?A)"
    by (simp add: sort_values_stable_def)
  then have sw: "sorted_wrt (\<lambda>p q. ?f p \<le> ?f q) ?A"
    by (simp only: sorted_map)
  have nonnan: "\<forall>p \<in> set ?A. ?P p"
    by (simp add: sort_values_stable_def)
  have s: "sorted_wrt (\<lambda>p q. fle (snd p) (snd q)) ?A"
  proof (rule sorted_wrt_mono_rel [OF _ sw])
    fix p q
    assume "p \<in> set ?A" "q \<in> set ?A" "?f p \<le> ?f q"
    with nonnan show "fle (snd p) (snd q)"
      by (blast intro: cost_key_le_fle)
  qed
  have m: "mset ?A = mset (filter ?P xs)"
    by (simp add: sort_values_stable_def)
  show ?thesis
    unfolding sort_values_result_def Let_def nn
    by (intro conjI m s sort_values_stable_split)
qed

section \<open>Tables without a valid row\<close>











section \<open>A missing input file\<close>

lemma clean_deployment_cost_keys:
  "clean_deployment_cost conv d = Inr df' \<Longrightarrow>
     map (\<lambda>r. (dep_Contract r, dep_Network r)) df' = map (\<lambda>r. (dep_Contract r, dep_Network r)) d"
  by (induction d arbitrary: df') (auto split: sum.splits)

lemma contracts_keys:
  "contracts df =
     unique (map fst (filter (\<lambda>p. snd p \<noteq> ''Ethereum'')
       (map (\<lambda>r. (dep_Contract r, dep_Network r)) df)))"
  by (simp add: contracts_def df_filtered_def filter_map comp_def)

lemma dummy_data_contracts:
  assumes "clean_deployment_cost conv dummy_data = Inr df"
  shows "length (contracts df) = 6"
  unfolding contracts_keys clean_deployment_cost_keys [OF assms]
  by (simp add: dummy_data_def unique_def)

lemma dummy_data_converts:
  "\<exists>df. clean_deployment_cost decimal_literal dummy_data = Inr df"
  unfolding clean_deployment_cost_succeeds
  by (simp add: dummy_data_def astype_float_def replace_dollar_def literal_eval)

lemma analyze_gas_costs_missing_file:
  "csv_files fs filepath = None \<Longrightarrow>
     analyze_gas_costs srt fs filepath =
       ([Print (''Error: The file '' @ quoted filepath @ '' was not found.'')], None)"
  by (simp add: analyze_gas_costs_def)

lemma deployment_main_missing_file:
  assumes "csv_files dfs ''deploymentgasestimation.csv'' = None"
  shows "deployment_main conv dfs =
     (Print (''deploymentgasestimation.csv not found. '' @
             ''Creating a dummy dataframe for demonstration.'')
        # fst (deployment_main conv
                 (dfs\<lparr>csv_files := (csv_files dfs)(''deploymentgasestimation.csv'' \<mapsto> dummy_data)\<rparr>)),
      snd (deployment_main conv
             (dfs\<lparr>csv_files := (csv_files dfs)(''deploymentgasestimation.csv'' \<mapsto> dummy_data)\<rparr>)))"
proof -
  let ?dfs = "dfs\<lparr>csv_files := (csv_files dfs)(''deploymentgasestimation.csv'' \<mapsto> dummy_data)\<rparr>"
  from assms have l: "load_deployment dfs =
     ([Print (''deploymentgasestimation.csv not found. '' @
              ''Creating a dummy dataframe for demonstration.'')], dummy_data)"
    by (simp add: load_deployment_def)
  have l': "load_deployment ?dfs = ([], dummy_data)"
    by (simp add: load_deployment_def)
  show ?thesis
    unfolding deployment_main_def l l'
    by (cases "clean_deployment_cost conv dummy_data") (simp_all add: Let_def)
qed

lemma deployment_main_dummy_charts:
  assumes "csv_files dfs ''deploymentgasestimation.csv'' = None"
    and "clean_deployment_cost conv dummy_data = Inr df"
  shows "snd (deployment_main conv dfs) = None"
    and "Print ''--- Ethereum Deployment Cost Summary ---'' \<in> set (fst (deployment_main conv dfs))"
    and "SaveFig ''deployment_costs_bar_charts.png'' \<in> set (fst (deployment_main conv dfs))"
    and "SaveFig ''deployment_costs_line_charts.png'' \<in> set (fst (deployment_main conv dfs))"
    and "SaveFig ''deployment_costs_summary.png'' \<in> set (fst (deployment_main conv dfs))"
proof -
  from assms(1) have l: "load_deployment dfs =
     ([Print (''deploymentgasestimation.csv not found. '' @
              ''Creating a dummy dataframe for demonstration.'')], dummy_data)"
    by (simp add: load_deployment_def)
  note c = dummy_data_contracts [OF assms(2)]
  show "snd (deployment_main conv dfs) = None"
    and "Print ''--- Ethereum Deployment Cost Summary ---'' \<in> set (fst (deployment_main conv dfs))"
    and "SaveFig ''deployment_costs_bar_charts.png'' \<in> set (fst (deployment_main conv dfs))"
    and "SaveFig ''deployment_costs_line_charts.png'' \<in> set (fst (deployment_main conv dfs))"
    and "SaveFig ''deployment_costs_summary.png'' \<in> set (fst (deployment_main conv dfs))"
    unfolding deployment_main_def l
    by (simp_all add: assms(2) c Let_def)
qed

text \<open>
  Claim C8, as stated, fails for deployment.py: without its input file the script prints
  a message, goes on with the table of lines 12 to 17, prints the summary and writes its
  three charts.
\<close>

theorem missing_file_counterexample:
  "csv_files (no_files :: cell dep_row list file_system) ''deploymentgasestimation.csv'' = None \<and>
   snd (deployment_main decimal_literal no_files) = None \<and>
   Print ''--- Ethereum Deployment Cost Summary ---''
     \<in> set (fst (deployment_main decimal_literal no_files)) \<and>
   SaveFig ''deployment_costs_bar_charts.png''
     \<in> set (fst (deployment_main decimal_literal no_files)) \<and>
   SaveFig ''deployment_costs_line_charts.png''
     \<in> set (fst (deployment_main decimal_literal no_files)) \<and>
   SaveFig ''deployment_costs_summary.png''
     \<in> set (fst (deployment_main decimal_literal no_files))"
proof -
  have n: "csv_files (no_files :: cell dep_row list file_system)
             ''deploymentgasestimation.csv'' = None"
    by (simp add: no_files_def)
  from dummy_data_converts obtain df where
    "clean_deployment_cost decimal_literal dummy_data = Inr df" by blast
  from n deployment_main_dummy_charts [OF n this] show ?thesis by blast
qed

text \<open>
  Claim C8, amended. When the input file of \<open>analyze_gas_costs\<close> does not exist, the run
  prints one message and returns: it creates no directory, writes no chart and prints no
  summary. When the input file of deployment.py does not exist, the run prints a message
  and then does what it does on a file that holds the built-in demonstration table; if
  the cells of that table convert, it ends without an exception, having printed the
  summary and written the three charts.
\<close>

theorem missing_input_file:
  "(csv_files fs filepath = None \<longrightarrow>
      analyze_gas_costs srt fs filepath =
        ([Print (''Error: The file '' @ quoted filepath @ '' was not found.'')], None)) \<and>
   (csv_files dfs ''deploymentgasestimation.csv'' = None \<longrightarrow>
      deployment_main conv dfs =
        (Print (''deploymentgasestimation.csv not found. '' @
                ''Creating a dummy dataframe for demonstration.'')
           # fst (deployment_main conv
                (dfs\<lparr>csv_files := (csv_files dfs)(''deploymentgasestimation.csv'' \<mapsto> dummy_data)\<rparr>)),
         snd (deployment_main conv
                (dfs\<lparr>csv_files := (csv_files dfs)(''deploymentgasestimation.csv'' \<mapsto> dummy_data)\<rparr>)))) \<and>
   (csv_files dfs ''deploymentgasestimation.csv'' = None \<and>
    (\<exists>df. clean_deployment_cost conv dummy_data = Inr df) \<longrightarrow>
      snd (deployment_main conv dfs) = None \<and>
      Print ''--- Ethereum Deployment Cost Summary ---'' \<in> set (fst (deployment_main conv dfs)) \<and>
      SaveFig ''deployment_costs_bar_charts.png'' \<in> set (fst (deployment_main conv dfs)) \<and>
      SaveFig ''deployment_costs_line_charts.png'' \<in> set (fst (deployment_main conv dfs)) \<and>
      SaveFig ''deployment_costs_summary.png'' \<in> set (fst (deployment_main conv dfs)))"
proof (intro conjI impI)
  assume "csv_files fs filepath = None"
  then show "analyze_gas_costs srt fs filepath =
        ([Print (''Error: The file '' @ quoted filepath @ '' was not found.'')], None)"
    by (rule analyze_gas_costs_missing_file)
next
  assume "csv_files dfs ''deploymentgasestimation.csv'' = None"
  then show "deployment_main conv dfs =
        (Print (''deploymentgasestimation.csv not found. '' @
                ''Creating a dummy dataframe for demonstration.'')
           # fst (deployment_main conv
                (dfs\<lparr>csv_files := (csv_files dfs)(''deploymentgasestimation.csv'' \<mapsto> dummy_data)\<rparr>)),
         snd (deployment_main conv
                (dfs\<lparr>csv_files := (csv_files dfs)(''deploymentgasestimation.csv'' \<mapsto> dummy_data)\<rparr>)))"
    by (rule deployment_main_missing_file)
next
  assume a: "csv_files dfs ''deploymentgasestimation.csv'' = None \<and>
    (\<exists>df. clean_deployment_cost conv dummy_data = Inr df)"
  then obtain df where df: "clean_deployment_cost conv dummy_data = Inr df" by blast
  from a have n: "csv_files dfs ''deploymentgasestimation.csv'' = None" by simp
  note c = deployment_main_dummy_charts [OF n df]
  show "snd (deployment_main conv dfs) = None" by (rule c)
  show "Print ''--- Ethereum Deployment Cost Summary ---'' \<in> set (fst (deployment_main conv dfs))"
    by (rule c)
  show "SaveFig ''deployment_costs_bar_charts.png'' \<in> set (fst (deployment_main conv dfs))"
    by (rule c)
  show "SaveFig ''deployment_costs_line_charts.png'' \<in> set (fst (deployment_main conv dfs))"
    by (rule c)
  show "SaveFig ''deployment_costs_summary.png'' \<in> set (fst (deployment_main conv dfs))"
    by (rule c)
qed

theorem missing_input_file_witness:
  "csv_files (no_files :: gas_row list file_system) ''contract.csv'' = None \<and>
   analyze_gas_costs sort_values_stable no_files ''contract.csv'' =
     ([Print (''Error: The file '' @ quoted ''contract.csv'' @ '' was not found.'')], None) \<and>
   hd (fst (deployment_main decimal_literal no_files)) =
     Print (''deploymentgasestimation.csv not found. '' @
            ''Creating a dummy dataframe for demonstration.'') \<and>
   SaveFig ''deployment_costs_summary.png'' \<in> set (fst (deployment_main decimal_literal no_files))"
proof -
  note t = missing_input_file [of no_files "''contract.csv''" sort_values_stable
      no_files decimal_literal]
  have g: "csv_files (no_files :: gas_row list file_system) ''contract.csv'' = None"
    by (simp add: no_files_def)
  have d: "csv_files (no_files :: cell dep_row list file_system)
             ''deploymentgasestimation.csv'' = None"
    by (simp add: no_files_def)
  note a = t [THEN conjunct1, THEN mp, OF g]
  note b = t [THEN conjunct2, THEN conjunct1, THEN mp, OF d]
  have h: "hd (fst (deployment_main decimal_literal no_files)) =
     Print (''deploymentgasestimation.csv not found. '' @
            ''Creating a dummy dataframe for demonstration.'')"
    by (subst b) (simp only: fst_conv list.sel)
  from d dummy_data_converts
  have "csv_files (no_files :: cell dep_row list file_system)
          ''deploymentgasestimation.csv'' = None \<and>
        (\<exists>df. clean_deployment_cost decimal_literal dummy_data = Inr df)"
    by blast
  note c = t [THEN conjunct2, THEN conjunct2, THEN mp, OF this]
  from g a h c show ?thesis by blast
qed

end
